theory Spec2Isabelle
  imports Main "HOL-Library.Multiset"
begin

section \<open>Appointment conflict validation of careaway-server\<close>

text \<open>
  A shallow embedding of
  \<^verbatim>\<open>services/appointment_scheduling_service/app/api/appointment-validation.js\<close>:
  the identity predicate \<^verbatim>\<open>isSame\<close>, the overlap predicate \<^verbatim>\<open>timesConflict\<close>,
  the two scanners \<^verbatim>\<open>noConflicts_Create\<close> and \<^verbatim>\<open>noConflicts_Modify\<close>, the
  orchestrator \<^verbatim>\<open>validate\<close> and its two entry points.
\<close>

subsection \<open>Data model\<close>

text \<open>
  A party is named by a string, compared with \<^verbatim>\<open>===\<close>. An instant is the number of
  milliseconds since the epoch that a moment object wraps.
\<close>

type_synonym identity = string

type_synonym instant = int

record appointment =
  initiator :: identity
  appointee :: identity
  startTime :: instant
  endTime :: instant

text \<open>The argument of the modification path: \<^verbatim>\<open>{original, modified}\<close>.\<close>

record modification =
  original :: appointment
  modified :: appointment

text \<open>What \<^verbatim>\<open>validate\<close> fulfils with: \<^verbatim>\<open>{success, reason}\<close>.\<close>

record verdict =
  success :: bool
  reason :: string

text \<open>What the repository fulfils with when the party has a record: \<^verbatim>\<open>{appointments}\<close>.\<close>

record appointment_doc =
  appointments :: "appointment list"

text \<open>
  The spec's assumption on a time span, \<open>start < end\<close>. The code never checks it; it is
  a hypothesis of the statements that need it.
\<close>

definition wellFormed :: "appointment \<Rightarrow> bool" where
  "wellFormed a = (startTime a < endTime a)"

subsection \<open>Comparison of instants\<close>

text \<open>
  Modelled from the spec: the comparisons \<^verbatim>\<open>isBefore\<close>, \<^verbatim>\<open>isAfter\<close> and \<^verbatim>\<open>isSame\<close>
  of the moment library, which is a dependency and not part of the repository. The spec
  takes instants to be totally ordered and compared exactly, with no tolerance window.
\<close>

definition moment_isBefore :: "instant \<Rightarrow> instant \<Rightarrow> bool" where
  "moment_isBefore a b = (a < b)"

definition moment_isAfter :: "instant \<Rightarrow> instant \<Rightarrow> bool" where
  "moment_isAfter a b = (b < a)"

definition moment_isSame :: "instant \<Rightarrow> instant \<Rightarrow> bool" where
  "moment_isSame a b = (a = b)"

subsection \<open>The identity and overlap predicates\<close>

definition isSame :: "appointment \<Rightarrow> appointment \<Rightarrow> bool" where
  "isSame firstAppointment secondAppointment =
     (let sameInitiator = (initiator firstAppointment = initiator secondAppointment);
          sameAppointee = (appointee firstAppointment = appointee secondAppointment);
          sameTime = moment_isSame (startTime firstAppointment) (startTime secondAppointment)
      in sameAppointee \<and> sameInitiator \<and> sameTime)"

definition timesConflict :: "appointment \<Rightarrow> appointment \<Rightarrow> bool" where
  "timesConflict firstAppointment secondAppointment =
     (let firstStartTime = startTime firstAppointment;
          firstEndTime = endTime firstAppointment;
          secondStartTime = startTime secondAppointment;
          secondEndTime = endTime secondAppointment;
          firstTest = (moment_isBefore firstStartTime secondEndTime
                       \<and> moment_isAfter firstEndTime secondEndTime);
          secondTest = (moment_isBefore firstStartTime secondStartTime
                        \<and> moment_isAfter firstEndTime secondStartTime);
          thirdTest = moment_isSame firstStartTime secondStartTime;
          fourthTest = moment_isSame firstEndTime secondEndTime
      in firstTest \<or> secondTest \<or> thirdTest \<or> fourthTest)"

subsection \<open>The conflict scanners\<close>

text \<open>
  \<^verbatim>\<open>noConflicts_Create\<close> starts with \<^verbatim>\<open>valid = true\<close> and walks the list; at the
  first entry that conflicts it sets \<^verbatim>\<open>valid = false\<close> and breaks. The loop is the
  recursive function below, with \<^verbatim>\<open>valid\<close> as its accumulator.
\<close>

fun noConflicts_Create_loop :: "appointment \<Rightarrow> appointment list \<Rightarrow> bool \<Rightarrow> bool" where
  "noConflicts_Create_loop appointment [] valid = valid"
| "noConflicts_Create_loop appointment (e # rest) valid =
     (if timesConflict e appointment then False
      else noConflicts_Create_loop appointment rest valid)"

definition noConflicts_Create :: "appointment \<Rightarrow> appointment list \<Rightarrow> bool" where
  "noConflicts_Create appointment appointmentList =
     noConflicts_Create_loop appointment appointmentList True"

text \<open>
  \<^verbatim>\<open>noConflicts_Modify\<close> walks the list in the same way; an entry that \<^verbatim>\<open>isSame\<close> as
  the original is passed over, any other entry is tested against the modified
  appointment.
\<close>

fun noConflicts_Modify_loop ::
  "appointment \<Rightarrow> appointment \<Rightarrow> appointment list \<Rightarrow> bool \<Rightarrow> bool" where
  "noConflicts_Modify_loop newAppointment orig [] valid = valid"
| "noConflicts_Modify_loop newAppointment orig (e # rest) valid =
     (let match = isSame e orig in
      if \<not> match then
        (if timesConflict e newAppointment then False
         else noConflicts_Modify_loop newAppointment orig rest valid)
      else noConflicts_Modify_loop newAppointment orig rest valid)"

definition noConflicts_Modify :: "modification \<Rightarrow> appointment list \<Rightarrow> bool" where
  "noConflicts_Modify appointments' appointmentList =
     (let newAppointment = modified appointments';
          orig = original appointments'
      in noConflicts_Modify_loop newAppointment orig appointmentList True)"

subsection \<open>Promises, the repository and the orchestrator\<close>

text \<open>
  A promise is modelled by the state it ends in: fulfilled with a value, rejected with an
  error, or never settled. What a call does besides settling its promise is recorded as
  a list of events, in order: the parties whose appointments were requested from the
  repository, the lines written by \<^verbatim>\<open>console.log\<close>, and the rejections that no
  handler takes.
\<close>

datatype 'a promise = Pending | Fulfilled 'a | Rejected string

datatype event = Fetched identity | ConsoleLog string | UnhandledRejection string

text \<open>
  The repository collaborator: \<^verbatim>\<open>repo.GetAppointment(party)\<close> is a promise of
  \<^verbatim>\<open>{appointments}\<close> or of \<^verbatim>\<open>null\<close> (\<open>None\<close>).
\<close>

record repo =
  GetAppointment :: "identity \<Rightarrow> appointment_doc option promise"

text \<open>
  \<^verbatim>\<open>validate\<close>: the handler of \<^verbatim>\<open>catch\<close> on the initiator's chain only logs the
  error, the appointee's chain has no handler, and \<^verbatim>\<open>reject\<close> is never called, so in
  both cases the promise that \<^verbatim>\<open>validate\<close> returned is left pending.
\<close>

definition validate ::
  "repo \<Rightarrow> 'c \<Rightarrow> identity \<Rightarrow> identity \<Rightarrow> ('c \<Rightarrow> appointment list \<Rightarrow> bool)
   \<Rightarrow> verdict promise \<times> event list" where
  "validate rp appointment initiatorId appointeeId noTimeConflicts =
     (case GetAppointment rp initiatorId of
        Pending \<Rightarrow> (Pending, [Fetched initiatorId])
      | Rejected err \<Rightarrow> (Pending, [Fetched initiatorId, ConsoleLog err])
      | Fulfilled initiatorResult \<Rightarrow>
          if (case initiatorResult of
                None \<Rightarrow> True
              | Some doc \<Rightarrow> noTimeConflicts appointment (appointments doc))
          then
            (case GetAppointment rp appointeeId of
               Pending \<Rightarrow> (Pending, [Fetched initiatorId, Fetched appointeeId])
             | Rejected err \<Rightarrow>
                 (Pending, [Fetched initiatorId, Fetched appointeeId, UnhandledRejection err])
             | Fulfilled appointeeResult \<Rightarrow>
                 if (case appointeeResult of
                       None \<Rightarrow> True
                     | Some doc \<Rightarrow> noTimeConflicts appointment (appointments doc))
                 then (Fulfilled \<lparr>success = True, reason = ''''\<rparr>,
                       [Fetched initiatorId, Fetched appointeeId])
                 else (Fulfilled \<lparr>success = False, reason =
                         ''Appointment time conflicts with the appointee's existing appointment.''\<rparr>,
                       [Fetched initiatorId, Fetched appointeeId,
                        ConsoleLog ''Error appointment time unavailable for appointee.'']))
          else (Fulfilled \<lparr>success = False, reason =
                  ''Appointment time conflicts with your existing appointment.''\<rparr>,
                [Fetched initiatorId,
                 ConsoleLog ''Error appointment time unavailable for initiator.'']))"

text \<open>
  The two entry points wrap \<^verbatim>\<open>validate\<close> in a new promise that is fulfilled with the
  result of the inner one. They have no handler for a rejection either.
\<close>

definition validate_modification ::
  "repo \<Rightarrow> modification \<Rightarrow> identity \<Rightarrow> identity \<Rightarrow> verdict promise \<times> event list" where
  "validate_modification rp appointments' initiatorId appointeeId =
     (case validate rp appointments' initiatorId appointeeId noConflicts_Modify of
        (Fulfilled result, trace) \<Rightarrow> (Fulfilled result, trace)
      | (Rejected err, trace) \<Rightarrow> (Pending, trace @ [UnhandledRejection err])
      | (Pending, trace) \<Rightarrow> (Pending, trace))"

definition validate_creation ::
  "repo \<Rightarrow> appointment \<Rightarrow> identity \<Rightarrow> identity \<Rightarrow> verdict promise \<times> event list" where
  "validate_creation rp appointment initiatorId appointeeId =
     (case validate rp appointment initiatorId appointeeId noConflicts_Create of
        (Fulfilled result, trace) \<Rightarrow> (Fulfilled result, trace)
      | (Rejected err, trace) \<Rightarrow> (Pending, trace @ [UnhandledRejection err])
      | (Pending, trace) \<Rightarrow> (Pending, trace))"

subsection \<open>Repositories for the scenarios\<close>

text \<open>
  A repository holding the given appointment lists (a party with no entry has no record,
  and its fetch fulfils with \<^verbatim>\<open>null\<close>), and a repository whose storage is down.
\<close>

definition repo_of :: "(identity \<times> appointment list) list \<Rightarrow> repo" where
  "repo_of records =
     \<lparr>GetAppointment = (\<lambda>party.
        case map_of records party of
          None \<Rightarrow> Fulfilled None
        | Some existing \<Rightarrow> Fulfilled (Some \<lparr>appointments = existing\<rparr>))\<rparr>"

definition storage_down :: repo where
  "storage_down = \<lparr>GetAppointment = (\<lambda>party. Rejected ''storage error'')\<rparr>"

section \<open>Properties\<close>

subsection \<open>The predicates and the scanners, unfolded\<close>

lemma timesConflict_unfold:
  "timesConflict a b =
     ((startTime a < endTime b \<and> endTime b < endTime a)
      \<or> (startTime a < startTime b \<and> startTime b < endTime a)
      \<or> startTime a = startTime b
      \<or> endTime a = endTime b)"
  by (simp add: timesConflict_def Let_def moment_isBefore_def moment_isAfter_def moment_isSame_def)

lemma isSame_unfold:
  "isSame x y =
     (initiator x = initiator y \<and> appointee x = appointee y \<and> startTime x = startTime y)"
  by (auto simp: isSame_def Let_def moment_isSame_def)

text \<open>
  A scan returns the accumulator unless an entry that is tested conflicts; induction on
  the list.
\<close>

lemma noConflicts_Create_loop_iff:
  "noConflicts_Create_loop c xs v \<longleftrightarrow> v \<and> (\<forall>e\<in>set xs. \<not> timesConflict e c)"
  by (induction xs) auto

lemma noConflicts_Create_iff:
  "noConflicts_Create c xs \<longleftrightarrow> (\<forall>e\<in>set xs. \<not> timesConflict e c)"
  by (simp add: noConflicts_Create_def noConflicts_Create_loop_iff)

lemma noConflicts_Modify_loop_iff:
  "noConflicts_Modify_loop m orig xs v \<longleftrightarrow>
     v \<and> (\<forall>e\<in>set xs. \<not> isSame e orig \<longrightarrow> \<not> timesConflict e m)"
  by (induction xs) (auto simp: Let_def)

lemma noConflicts_Modify_iff:
  "noConflicts_Modify p xs \<longleftrightarrow>
     (\<forall>e\<in>set xs. \<not> isSame e (original p) \<longrightarrow> \<not> timesConflict e (modified p))"
  by (simp add: noConflicts_Modify_def Let_def noConflicts_Modify_loop_iff)

subsection \<open>The orchestrator and its entry points\<close>

text \<open>
  \<^verbatim>\<open>validate\<close> never rejects, so the entry points return exactly what it returns.
\<close>

lemma validate_never_rejects:
  "fst (validate rp c i a scanner) \<noteq> Rejected e"
  by (simp add: validate_def split: promise.splits option.splits)

lemma validate_not_Rejected:
  "validate rp c i a scanner \<noteq> (Rejected e, t)"
  by (simp add: validate_def split: promise.splits option.splits)

lemma validate_rejected_fetch:
  assumes "GetAppointment rp party = Rejected err"
      and "Fetched party \<in> set (snd (validate rp c i a scanner))"
  shows "fst (validate rp c i a scanner) = Pending"
  using assms
  by (auto simp: validate_def split: promise.splits option.splits if_splits)

lemma validate_creation_fst:
  "fst (validate_creation rp ap i a) = fst (validate rp ap i a noConflicts_Create)"
  by (auto simp: validate_creation_def validate_not_Rejected split: prod.splits promise.splits)

lemma validate_creation_snd:
  "snd (validate_creation rp ap i a) = snd (validate rp ap i a noConflicts_Create)"
  by (auto simp: validate_creation_def validate_not_Rejected split: prod.splits promise.splits)

lemma validate_creation_eq:
  "validate_creation rp ap i a = validate rp ap i a noConflicts_Create"
  by (simp add: prod_eq_iff validate_creation_fst validate_creation_snd)

lemma validate_modification_fst:
  "fst (validate_modification rp m i a) = fst (validate rp m i a noConflicts_Modify)"
  by (auto simp: validate_modification_def validate_not_Rejected split: prod.splits promise.splits)

lemma validate_modification_snd:
  "snd (validate_modification rp m i a) = snd (validate rp m i a noConflicts_Modify)"
  by (auto simp: validate_modification_def validate_not_Rejected split: prod.splits promise.splits)

lemma validate_modification_eq:
  "validate_modification rp m i a = validate rp m i a noConflicts_Modify"
  by (simp add: prod_eq_iff validate_modification_fst validate_modification_snd)

lemma validate_null_as_empty:
  assumes "scanner c []"
  shows "validate (rp\<lparr>GetAppointment := (GetAppointment rp)(party := Fulfilled None)\<rparr>) c i a scanner
         = validate (rp\<lparr>GetAppointment :=
              (GetAppointment rp)(party := Fulfilled (Some \<lparr>appointments = []\<rparr>))\<rparr>) c i a scanner"
  using assms by (cases "i = party"; cases "a = party"; simp add: validate_def split: promise.splits option.splits)

lemma validate_verdicts:
  assumes "fst (validate rp c i a scanner) = Fulfilled v"
  shows "v = \<lparr>success = True, reason = ''''\<rparr>
         \<or> v = \<lparr>success = False, reason =
                  ''Appointment time conflicts with your existing appointment.''\<rparr>
         \<or> v = \<lparr>success = False, reason =
                  ''Appointment time conflicts with the appointee's existing appointment.''\<rparr>"
  using assms
  by (auto simp: validate_def split: promise.splits option.splits if_splits)

subsection \<open>C1: the overlap predicate\<close>

text \<open>
  C1. For well-formed spans \<open>a\<close> (existing) and \<open>b\<close> (candidate), \<open>timesConflict a b\<close>
  holds exactly when one of the four conditions holds: \<open>a.start < b.end < a.end\<close>, or
  \<open>a.start < b.start < a.end\<close>, or the starts are equal, or the ends are equal. It is
  false when the spans are disjoint, and false when they are merely adjacent
  (\<open>a.end = b.start\<close>).
\<close>

theorem timesConflict_four_conditions:
  assumes "wellFormed a" and "wellFormed b"
  shows "(timesConflict a b \<longleftrightarrow>
            (startTime a < endTime b \<and> endTime b < endTime a)
            \<or> (startTime a < startTime b \<and> startTime b < endTime a)
            \<or> startTime a = startTime b
            \<or> endTime a = endTime b)
         \<and> (endTime a < startTime b \<or> endTime b < startTime a \<longrightarrow> \<not> timesConflict a b)
         \<and> (endTime a = startTime b \<longrightarrow> \<not> timesConflict a b)"
proof (intro conjI impI)
  show "timesConflict a b \<longleftrightarrow>
          (startTime a < endTime b \<and> endTime b < endTime a)
          \<or> (startTime a < startTime b \<and> startTime b < endTime a)
          \<or> startTime a = startTime b
          \<or> endTime a = endTime b"
    by (rule timesConflict_unfold)
next
  assume "endTime a < startTime b \<or> endTime b < startTime a"
  with assms show "\<not> timesConflict a b"
    unfolding timesConflict_unfold wellFormed_def by linarith
next
  assume "endTime a = startTime b"
  with assms show "\<not> timesConflict a b"
    unfolding timesConflict_unfold wellFormed_def by linarith
qed

text \<open>
  The theorem at the back-to-back spans 10:00-11:00 and 11:00-12:00 (instants written as
  minutes of the day), and at the disjoint spans 10:00-11:00 and 12:00-13:00.
\<close>

theorem timesConflict_four_conditions_witness:
  "wellFormed \<lparr>initiator = ''U1'', appointee = ''U3'', startTime = 600, endTime = 660\<rparr>
   \<and> wellFormed \<lparr>initiator = ''U1'', appointee = ''U2'', startTime = 660, endTime = 720\<rparr>
   \<and> wellFormed \<lparr>initiator = ''U1'', appointee = ''U2'', startTime = 720, endTime = 780\<rparr>
   \<and> \<not> timesConflict
         \<lparr>initiator = ''U1'', appointee = ''U3'', startTime = 600, endTime = 660\<rparr>
         \<lparr>initiator = ''U1'', appointee = ''U2'', startTime = 660, endTime = 720\<rparr>
   \<and> \<not> timesConflict
         \<lparr>initiator = ''U1'', appointee = ''U3'', startTime = 600, endTime = 660\<rparr>
         \<lparr>initiator = ''U1'', appointee = ''U2'', startTime = 720, endTime = 780\<rparr>"
proof -
  let ?a = "\<lparr>initiator = ''U1'', appointee = ''U3'', startTime = 600, endTime = 660\<rparr>"
  let ?b = "\<lparr>initiator = ''U1'', appointee = ''U2'', startTime = 660, endTime = 720\<rparr>"
  let ?c = "\<lparr>initiator = ''U1'', appointee = ''U2'', startTime = 720, endTime = 780\<rparr>"
  have wa: "wellFormed ?a" and wb: "wellFormed ?b" and wc: "wellFormed ?c"
    by (simp_all add: wellFormed_def)
  have "\<not> timesConflict ?a ?b"
    using timesConflict_four_conditions [OF wa wb] by simp
  moreover have "\<not> timesConflict ?a ?c"
    using timesConflict_four_conditions [OF wa wc] by simp
  ultimately show ?thesis
    using wa wb wc by simp
qed

subsection \<open>C2: the overlap predicate is not symmetric\<close>

text \<open>
  C2 states that \<open>timesConflict a b = timesConflict b a\<close> for well-formed spans. The four
  tests ask whether an end point of the second span lies strictly inside the first one,
  or whether the starts or the ends coincide; none of them holds when the second span
  strictly contains the first. With the existing appointment 10:00-11:00 as first
  argument and the candidate 09:00-12:00 as second the function returns false, and with
  the arguments exchanged it returns true, although its documentation promises true
  whenever the two appointments overlap.
\<close>

theorem timesConflict_not_symmetric:
  "wellFormed \<lparr>initiator = ''U1'', appointee = ''U3'', startTime = 600, endTime = 660\<rparr>
   \<and> wellFormed \<lparr>initiator = ''U1'', appointee = ''U2'', startTime = 540, endTime = 720\<rparr>
   \<and> \<not> timesConflict
         \<lparr>initiator = ''U1'', appointee = ''U3'', startTime = 600, endTime = 660\<rparr>
         \<lparr>initiator = ''U1'', appointee = ''U2'', startTime = 540, endTime = 720\<rparr>
   \<and> timesConflict
         \<lparr>initiator = ''U1'', appointee = ''U2'', startTime = 540, endTime = 720\<rparr>
         \<lparr>initiator = ''U1'', appointee = ''U3'', startTime = 600, endTime = 660\<rparr>"
  by (simp add: wellFormed_def timesConflict_def Let_def moment_isBefore_def
      moment_isAfter_def moment_isSame_def)

subsection \<open>C3: a fetch that fails\<close>

text \<open>
  C3 states that a rejected fetch is propagated to the caller as an error. It is not:
  with a repository whose storage is down, \<open>validate_creation\<close> and
  \<open>validate_modification\<close> write the error to the console and leave their promise
  pending, which is neither a verdict nor a rejection.
\<close>

theorem fetch_failure_not_propagated:
  "GetAppointment storage_down ''U1'' = Rejected ''storage error''
   \<and> validate_creation storage_down
        \<lparr>initiator = ''U1'', appointee = ''U2'', startTime = 600, endTime = 660\<rparr> ''U1'' ''U2''
      = (Pending, [Fetched ''U1'', ConsoleLog ''storage error''])
   \<and> validate_modification storage_down
        \<lparr>original = \<lparr>initiator = ''U1'', appointee = ''U2'', startTime = 540, endTime = 600\<rparr>,
         modified = \<lparr>initiator = ''U1'', appointee = ''U2'', startTime = 600, endTime = 660\<rparr>\<rparr>
        ''U1'' ''U2''
      = (Pending, [Fetched ''U1'', ConsoleLog ''storage error''])"
  by (simp add: storage_down_def validate_creation_def validate_modification_def validate_def)

text \<open>
  C3, as the code has it. When a fetch that the call makes is rejected, the promise of
  \<open>validate\<close>, of \<open>validate_creation\<close> and of \<open>validate_modification\<close> stays
  pending: no verdict is returned, so the failure is never taken for the absence of
  conflicts. None of the three ever rejects its promise.
\<close>

theorem rejected_fetch_never_settles:
  assumes "GetAppointment rp party = Rejected err"
  shows "(Fetched party \<in> set (snd (validate rp c i a scanner)) \<longrightarrow>
            fst (validate rp c i a scanner) = Pending)
         \<and> (Fetched party \<in> set (snd (validate_creation rp ap i a)) \<longrightarrow>
            fst (validate_creation rp ap i a) = Pending)
         \<and> (Fetched party \<in> set (snd (validate_modification rp m i a)) \<longrightarrow>
            fst (validate_modification rp m i a) = Pending)
         \<and> fst (validate rp c i a scanner) \<noteq> Rejected e
         \<and> fst (validate_creation rp ap i a) \<noteq> Rejected e
         \<and> fst (validate_modification rp m i a) \<noteq> Rejected e"
  using assms
  by (simp add: validate_creation_eq validate_modification_eq validate_never_rejects
      validate_rejected_fetch)

text \<open>
  The theorem at a repository whose storage is down for the initiator, and at one that
  has no record of the initiator and is down for the appointee.
\<close>

theorem rejected_fetch_never_settles_witness:
  "GetAppointment storage_down ''U1'' = Rejected ''storage error''
   \<and> Fetched ''U1'' \<in> set (snd (validate_creation storage_down
        \<lparr>initiator = ''U1'', appointee = ''U2'', startTime = 600, endTime = 660\<rparr>
        ''U1'' ''U2''))
   \<and> fst (validate_creation storage_down
        \<lparr>initiator = ''U1'', appointee = ''U2'', startTime = 600, endTime = 660\<rparr>
        ''U1'' ''U2'') = Pending
   \<and> GetAppointment
        (storage_down\<lparr>GetAppointment :=
           (GetAppointment storage_down)(''U1'' := Fulfilled None)\<rparr>) ''U2''
      = Rejected ''storage error''
   \<and> Fetched ''U2'' \<in> set (snd (validate_modification
        (storage_down\<lparr>GetAppointment :=
           (GetAppointment storage_down)(''U1'' := Fulfilled None)\<rparr>)
        \<lparr>original = \<lparr>initiator = ''U1'', appointee = ''U2'', startTime = 540, endTime = 600\<rparr>,
         modified = \<lparr>initiator = ''U1'', appointee = ''U2'', startTime = 600, endTime = 660\<rparr>\<rparr>
        ''U1'' ''U2''))
   \<and> fst (validate_modification
        (storage_down\<lparr>GetAppointment :=
           (GetAppointment storage_down)(''U1'' := Fulfilled None)\<rparr>)
        \<lparr>original = \<lparr>initiator = ''U1'', appointee = ''U2'', startTime = 540, endTime = 600\<rparr>,
         modified = \<lparr>initiator = ''U1'', appointee = ''U2'', startTime = 600, endTime = 660\<rparr>\<rparr>
        ''U1'' ''U2'') = Pending"
proof -
  let ?c = "\<lparr>initiator = ''U1'', appointee = ''U2'', startTime = 600, endTime = 660\<rparr>"
  let ?m = "\<lparr>original = \<lparr>initiator = ''U1'', appointee = ''U2'', startTime = 540, endTime = 600\<rparr>,
             modified = ?c\<rparr>"
  let ?rp = "storage_down\<lparr>GetAppointment :=
               (GetAppointment storage_down)(''U1'' := Fulfilled None)\<rparr>"
  have down: "GetAppointment storage_down ''U1'' = Rejected ''storage error''"
    by (simp add: storage_down_def)
  have fetched1: "Fetched ''U1'' \<in> set (snd (validate_creation storage_down ?c ''U1'' ''U2''))"
    by (simp add: storage_down_def validate_creation_def validate_def)
  have down2: "GetAppointment ?rp ''U2'' = Rejected ''storage error''"
    by (simp add: storage_down_def)
  have fetched2: "Fetched ''U2'' \<in> set (snd (validate_modification ?rp ?m ''U1'' ''U2''))"
    by (simp add: storage_down_def validate_modification_def validate_def)
  have "fst (validate_creation storage_down ?c ''U1'' ''U2'') = Pending"
    using rejected_fetch_never_settles [OF down, of ?c "''U1''" "''U2''" noConflicts_Create ?c ?m]
      fetched1 by blast
  moreover have "fst (validate_modification ?rp ?m ''U1'' ''U2'') = Pending"
    using rejected_fetch_never_settles [OF down2, of ?c "''U1''" "''U2''" noConflicts_Create ?c ?m]
      fetched2 by blast
  ultimately show ?thesis
    using down fetched1 down2 fetched2 by blast
qed

subsection \<open>C4: the initiator's conflict comes first\<close>

text \<open>
  C4. When the scanner reports a conflict against the initiator's list, the verdict is
  \<open>success = False\<close> with the reason naming the initiator's own appointment, and the
  only request to the repository is the one for the initiator: the appointee's list is
  never fetched, whatever it holds. This holds for \<open>validate\<close> with any scanner and for
  the two entry points.
\<close>

theorem validate_initiator_conflict_first:
  assumes "GetAppointment rp i = Fulfilled (Some doc)"
  shows "(\<not> scanner c (appointments doc) \<longrightarrow>
            validate rp c i a scanner =
              (Fulfilled \<lparr>success = False, reason =
                 ''Appointment time conflicts with your existing appointment.''\<rparr>,
               [Fetched i, ConsoleLog ''Error appointment time unavailable for initiator.'']))
         \<and> (\<not> noConflicts_Create ap (appointments doc) \<longrightarrow>
            validate_creation rp ap i a =
              (Fulfilled \<lparr>success = False, reason =
                 ''Appointment time conflicts with your existing appointment.''\<rparr>,
               [Fetched i, ConsoleLog ''Error appointment time unavailable for initiator.'']))
         \<and> (\<not> noConflicts_Modify m (appointments doc) \<longrightarrow>
            validate_modification rp m i a =
              (Fulfilled \<lparr>success = False, reason =
                 ''Appointment time conflicts with your existing appointment.''\<rparr>,
               [Fetched i, ConsoleLog ''Error appointment time unavailable for initiator.'']))"
  using assms
  by (simp add: validate_creation_eq validate_modification_eq validate_def)

text \<open>
  The theorem where both parties have an appointment 10:00-11:00 and the candidate is
  10:30-11:30: each list alone would conflict, and the reason is the initiator's.
\<close>

theorem validate_initiator_conflict_first_witness:
  "GetAppointment
     (repo_of [(''U1'', [\<lparr>initiator = ''U1'', appointee = ''U3'', startTime = 600, endTime = 660\<rparr>]),
               (''U2'', [\<lparr>initiator = ''U4'', appointee = ''U2'', startTime = 600, endTime = 660\<rparr>])])
     ''U1''
   = Fulfilled (Some \<lparr>appointments =
       [\<lparr>initiator = ''U1'', appointee = ''U3'', startTime = 600, endTime = 660\<rparr>]\<rparr>)
   \<and> \<not> noConflicts_Create
         \<lparr>initiator = ''U1'', appointee = ''U2'', startTime = 630, endTime = 690\<rparr>
         [\<lparr>initiator = ''U1'', appointee = ''U3'', startTime = 600, endTime = 660\<rparr>]
   \<and> \<not> noConflicts_Create
         \<lparr>initiator = ''U1'', appointee = ''U2'', startTime = 630, endTime = 690\<rparr>
         [\<lparr>initiator = ''U4'', appointee = ''U2'', startTime = 600, endTime = 660\<rparr>]
   \<and> validate_creation
        (repo_of [(''U1'', [\<lparr>initiator = ''U1'', appointee = ''U3'', startTime = 600, endTime = 660\<rparr>]),
                  (''U2'', [\<lparr>initiator = ''U4'', appointee = ''U2'', startTime = 600, endTime = 660\<rparr>])])
        \<lparr>initiator = ''U1'', appointee = ''U2'', startTime = 630, endTime = 690\<rparr>
        ''U1'' ''U2''
      = (Fulfilled \<lparr>success = False, reason =
           ''Appointment time conflicts with your existing appointment.''\<rparr>,
         [Fetched ''U1'', ConsoleLog ''Error appointment time unavailable for initiator.''])"
proof -
  let ?x = "\<lparr>initiator = ''U1'', appointee = ''U3'', startTime = 600, endTime = 660\<rparr>"
  let ?y = "\<lparr>initiator = ''U4'', appointee = ''U2'', startTime = 600, endTime = 660\<rparr>"
  let ?c = "\<lparr>initiator = ''U1'', appointee = ''U2'', startTime = 630, endTime = 690\<rparr>"
  let ?rp = "repo_of [(''U1'', [?x]), (''U2'', [?y])]"
  have fetch: "GetAppointment ?rp ''U1'' = Fulfilled (Some \<lparr>appointments = [?x]\<rparr>)"
    by (simp add: repo_of_def)
  have own: "\<not> noConflicts_Create ?c [?x]" and other: "\<not> noConflicts_Create ?c [?y]"
    by (simp_all add: noConflicts_Create_def timesConflict_unfold)
  from own have "\<not> noConflicts_Create ?c (appointments \<lparr>appointments = [?x]\<rparr>)"
    by simp
  with validate_initiator_conflict_first [OF fetch, of noConflicts_Create ?c "''U2''" ?c]
  have "validate_creation ?rp ?c ''U1'' ''U2''
      = (Fulfilled \<lparr>success = False, reason =
           ''Appointment time conflicts with your existing appointment.''\<rparr>,
         [Fetched ''U1'', ConsoleLog ''Error appointment time unavailable for initiator.''])"
    by blast
  with fetch own other show ?thesis
    by blast
qed

subsection \<open>C5: the modification scanner\<close>

text \<open>
  C5. \<open>noConflicts_Modify\<close> returns true exactly when no entry that is not \<open>isSame\<close>
  as the original conflicts with the modified appointment. Every entry that matches the
  original is skipped, however many there are and wherever they stand: the result is
  that of the list without them, and removing one match changes nothing. Nothing is
  asked of the original and the modified appointment, so they may overlap.
\<close>

theorem noConflicts_Modify_skips_original:
  "(noConflicts_Modify p existing \<longleftrightarrow>
      (\<forall>e\<in>set existing. \<not> isSame e (original p) \<longrightarrow> \<not> timesConflict e (modified p)))
   \<and> noConflicts_Modify p existing =
       noConflicts_Modify p (filter (\<lambda>e. \<not> isSame e (original p)) existing)
   \<and> (isSame e (original p) \<longrightarrow>
        noConflicts_Modify p (before @ e # after) = noConflicts_Modify p (before @ after))"
  by (auto simp: noConflicts_Modify_iff)

text \<open>
  The theorem at the original 09:00-10:00 and the modified appointment 09:30-10:30,
  which overlap: the list holding the original alone passes, the list holding it twice
  around an unrelated later appointment passes, and a list with another appointment at
  10:00-11:00 does not.
\<close>

theorem noConflicts_Modify_skips_original_witness:
  "isSame \<lparr>initiator = ''U1'', appointee = ''U2'', startTime = 540, endTime = 600\<rparr>
          \<lparr>initiator = ''U1'', appointee = ''U2'', startTime = 540, endTime = 600\<rparr>
   \<and> timesConflict
        \<lparr>initiator = ''U1'', appointee = ''U2'', startTime = 540, endTime = 600\<rparr>
        \<lparr>initiator = ''U1'', appointee = ''U2'', startTime = 570, endTime = 630\<rparr>
   \<and> noConflicts_Modify
        \<lparr>original = \<lparr>initiator = ''U1'', appointee = ''U2'', startTime = 540, endTime = 600\<rparr>,
         modified = \<lparr>initiator = ''U1'', appointee = ''U2'', startTime = 570, endTime = 630\<rparr>\<rparr>
        [\<lparr>initiator = ''U1'', appointee = ''U2'', startTime = 540, endTime = 600\<rparr>]
   \<and> noConflicts_Modify
        \<lparr>original = \<lparr>initiator = ''U1'', appointee = ''U2'', startTime = 540, endTime = 600\<rparr>,
         modified = \<lparr>initiator = ''U1'', appointee = ''U2'', startTime = 570, endTime = 630\<rparr>\<rparr>
        [\<lparr>initiator = ''U1'', appointee = ''U2'', startTime = 540, endTime = 600\<rparr>,
         \<lparr>initiator = ''U1'', appointee = ''U3'', startTime = 720, endTime = 780\<rparr>,
         \<lparr>initiator = ''U1'', appointee = ''U2'', startTime = 540, endTime = 600\<rparr>]
   \<and> \<not> noConflicts_Modify
        \<lparr>original = \<lparr>initiator = ''U1'', appointee = ''U2'', startTime = 540, endTime = 600\<rparr>,
         modified = \<lparr>initiator = ''U1'', appointee = ''U2'', startTime = 570, endTime = 630\<rparr>\<rparr>
        [\<lparr>initiator = ''U1'', appointee = ''U2'', startTime = 540, endTime = 600\<rparr>,
         \<lparr>initiator = ''U1'', appointee = ''U3'', startTime = 600, endTime = 660\<rparr>]"
proof -
  let ?o = "\<lparr>initiator = ''U1'', appointee = ''U2'', startTime = 540, endTime = 600\<rparr>"
  let ?m = "\<lparr>initiator = ''U1'', appointee = ''U2'', startTime = 570, endTime = 630\<rparr>"
  let ?x = "\<lparr>initiator = ''U1'', appointee = ''U3'', startTime = 720, endTime = 780\<rparr>"
  let ?y = "\<lparr>initiator = ''U1'', appointee = ''U3'', startTime = 600, endTime = 660\<rparr>"
  let ?p = "\<lparr>original = ?o, modified = ?m\<rparr>"
  have same: "isSame ?o ?o"
    by (simp add: isSame_unfold)
  have overlap: "timesConflict ?o ?m"
    by (simp add: timesConflict_unfold)
  have x_other: "\<not> isSame ?x ?o" and x_free: "\<not> timesConflict ?x ?m"
    by (simp_all add: isSame_unfold timesConflict_unfold)
  have y_other: "\<not> isSame ?y ?o" and y_clash: "timesConflict ?y ?m"
    by (simp_all add: isSame_unfold timesConflict_unfold)
  have "noConflicts_Modify ?p [?o]"
    using noConflicts_Modify_skips_original [of ?p "[?o]" ?o "[]" "[]"] same by simp
  moreover have "noConflicts_Modify ?p [?o, ?x, ?o]"
    using noConflicts_Modify_skips_original [of ?p "[?o, ?x, ?o]" ?o "[]" "[?x, ?o]"]
      same x_free by simp
  moreover have "\<not> noConflicts_Modify ?p [?o, ?y]"
    using noConflicts_Modify_skips_original [of ?p "[?o, ?y]" ?o "[]" "[?y]"]
      y_other y_clash by simp
  ultimately show ?thesis
    using same overlap by blast
qed

subsection \<open>C6: a candidate that strictly contains an existing appointment\<close>

text \<open>
  C6. When the second span strictly contains the first (it starts earlier and ends
  later), \<open>timesConflict first second\<close> is false, so \<open>noConflicts_Create\<close> accepts a
  candidate that strictly contains the one existing appointment, and an existing
  appointment that the candidate strictly contains never changes the result of the scan.
  Well-formedness of the spans is not needed.
\<close>

theorem containing_candidate_accepted:
  assumes "startTime second < startTime first" and "endTime first < endTime second"
  shows "\<not> timesConflict first second
         \<and> noConflicts_Create second [first]
         \<and> noConflicts_Create second (before @ first # after) =
             noConflicts_Create second (before @ after)"
proof -
  from assms have nc: "\<not> timesConflict first second"
    unfolding timesConflict_unfold by linarith
  then show ?thesis
    by (auto simp: noConflicts_Create_iff)
qed

text \<open>
  The theorem at the existing appointment 10:00-11:00 and the candidate 09:00-12:00.
\<close>

theorem containing_candidate_accepted_witness:
  "startTime \<lparr>initiator = ''U1'', appointee = ''U2'', startTime = 540, endTime = 720\<rparr>
     < startTime \<lparr>initiator = ''U1'', appointee = ''U3'', startTime = 600, endTime = 660\<rparr>
   \<and> endTime \<lparr>initiator = ''U1'', appointee = ''U3'', startTime = 600, endTime = 660\<rparr>
     < endTime \<lparr>initiator = ''U1'', appointee = ''U2'', startTime = 540, endTime = 720\<rparr>
   \<and> wellFormed \<lparr>initiator = ''U1'', appointee = ''U3'', startTime = 600, endTime = 660\<rparr>
   \<and> wellFormed \<lparr>initiator = ''U1'', appointee = ''U2'', startTime = 540, endTime = 720\<rparr>
   \<and> \<not> timesConflict
         \<lparr>initiator = ''U1'', appointee = ''U3'', startTime = 600, endTime = 660\<rparr>
         \<lparr>initiator = ''U1'', appointee = ''U2'', startTime = 540, endTime = 720\<rparr>
   \<and> noConflicts_Create
         \<lparr>initiator = ''U1'', appointee = ''U2'', startTime = 540, endTime = 720\<rparr>
         [\<lparr>initiator = ''U1'', appointee = ''U3'', startTime = 600, endTime = 660\<rparr>]"
proof -
  let ?first = "\<lparr>initiator = ''U1'', appointee = ''U3'', startTime = 600, endTime = 660\<rparr>"
  let ?second = "\<lparr>initiator = ''U1'', appointee = ''U2'', startTime = 540, endTime = 720\<rparr>"
  have starts: "startTime ?second < startTime ?first"
    and ends: "endTime ?first < endTime ?second"
    by simp_all
  have wf: "wellFormed ?first \<and> wellFormed ?second"
    by (simp add: wellFormed_def)
  from containing_candidate_accepted [OF starts ends, of "[]" "[]"] starts ends wf
  show ?thesis
    by blast
qed

subsection \<open>C7: the creation scanner\<close>

text \<open>
  C7. \<open>noConflicts_Create candidate existing\<close> is true exactly when \<open>timesConflict e
  candidate\<close> is false for every entry \<open>e\<close> of the list. It is true for the empty list,
  and two lists with the same entries in another order give the same result.
\<close>

theorem noConflicts_Create_all_entries:
  "(noConflicts_Create candidate existing \<longleftrightarrow>
      (\<forall>e\<in>set existing. \<not> timesConflict e candidate))
   \<and> noConflicts_Create candidate []
   \<and> (mset existing = mset existing' \<longrightarrow>
        noConflicts_Create candidate existing = noConflicts_Create candidate existing')"
proof (intro conjI impI)
  show "noConflicts_Create candidate existing \<longleftrightarrow>
          (\<forall>e\<in>set existing. \<not> timesConflict e candidate)"
    by (rule noConflicts_Create_iff)
next
  show "noConflicts_Create candidate []"
    by (simp add: noConflicts_Create_def)
next
  assume "mset existing = mset existing'"
  then have "set existing = set existing'"
    by (rule mset_eq_setD)
  then show "noConflicts_Create candidate existing = noConflicts_Create candidate existing'"
    by (simp add: noConflicts_Create_iff)
qed

text \<open>
  The theorem at the list of 10:00-11:00 and 12:00-13:00 in both orders, with the
  candidate 11:00-12:00 (accepted) and the candidate 10:30-11:30 (refused).
\<close>

theorem noConflicts_Create_all_entries_witness:
  "mset [\<lparr>initiator = ''U1'', appointee = ''U3'', startTime = 600, endTime = 660\<rparr>,
         \<lparr>initiator = ''U1'', appointee = ''U4'', startTime = 720, endTime = 780\<rparr>]
   = mset [\<lparr>initiator = ''U1'', appointee = ''U4'', startTime = 720, endTime = 780\<rparr>,
           \<lparr>initiator = ''U1'', appointee = ''U3'', startTime = 600, endTime = 660\<rparr>]
   \<and> noConflicts_Create
        \<lparr>initiator = ''U1'', appointee = ''U2'', startTime = 660, endTime = 720\<rparr>
        [\<lparr>initiator = ''U1'', appointee = ''U3'', startTime = 600, endTime = 660\<rparr>,
         \<lparr>initiator = ''U1'', appointee = ''U4'', startTime = 720, endTime = 780\<rparr>]
   \<and> noConflicts_Create
        \<lparr>initiator = ''U1'', appointee = ''U2'', startTime = 660, endTime = 720\<rparr>
        [\<lparr>initiator = ''U1'', appointee = ''U4'', startTime = 720, endTime = 780\<rparr>,
         \<lparr>initiator = ''U1'', appointee = ''U3'', startTime = 600, endTime = 660\<rparr>]
   \<and> \<not> noConflicts_Create
        \<lparr>initiator = ''U1'', appointee = ''U2'', startTime = 630, endTime = 690\<rparr>
        [\<lparr>initiator = ''U1'', appointee = ''U3'', startTime = 600, endTime = 660\<rparr>,
         \<lparr>initiator = ''U1'', appointee = ''U4'', startTime = 720, endTime = 780\<rparr>]"
proof -
  let ?x = "\<lparr>initiator = ''U1'', appointee = ''U3'', startTime = 600, endTime = 660\<rparr>"
  let ?y = "\<lparr>initiator = ''U1'', appointee = ''U4'', startTime = 720, endTime = 780\<rparr>"
  let ?c = "\<lparr>initiator = ''U1'', appointee = ''U2'', startTime = 660, endTime = 720\<rparr>"
  let ?d = "\<lparr>initiator = ''U1'', appointee = ''U2'', startTime = 630, endTime = 690\<rparr>"
  have perm: "mset [?x, ?y] = mset [?y, ?x]"
    by simp
  have free: "\<forall>e\<in>set [?x, ?y]. \<not> timesConflict e ?c"
    by (simp add: timesConflict_unfold)
  have clash: "\<not> (\<forall>e\<in>set [?x, ?y]. \<not> timesConflict e ?d)"
    by (simp add: timesConflict_unfold)
  from free have "noConflicts_Create ?c [?x, ?y]"
    using noConflicts_Create_all_entries [of ?c "[?x, ?y]" "[?y, ?x]"] by blast
  moreover from this perm have "noConflicts_Create ?c [?y, ?x]"
    using noConflicts_Create_all_entries [of ?c "[?x, ?y]" "[?y, ?x]"] by blast
  moreover from clash have "\<not> noConflicts_Create ?d [?x, ?y]"
    using noConflicts_Create_all_entries [of ?d "[?x, ?y]" "[?x, ?y]"] by blast
  ultimately show ?thesis
    using perm by blast
qed

subsection \<open>C8: the identity predicate\<close>

text \<open>
  C8. \<open>isSame x y\<close> holds exactly when the initiators, the appointees and the start
  instants are equal. The end instant plays no part, and the predicate is reflexive and
  symmetric.
\<close>

theorem isSame_exact_reflexive_symmetric:
  "(isSame x y \<longleftrightarrow>
      initiator x = initiator y \<and> appointee x = appointee y \<and> startTime x = startTime y)
   \<and> isSame x (y\<lparr>endTime := t\<rparr>) = isSame x y
   \<and> isSame (x\<lparr>endTime := t\<rparr>) y = isSame x y
   \<and> isSame x x
   \<and> isSame x y = isSame y x"
  by (auto simp: isSame_unfold)

subsection \<open>C9: a party without a record\<close>

text \<open>
  C9. When the repository fulfils with \<^verbatim>\<open>null\<close> for both parties the verdict is
  \<open>success = True\<close> with an empty reason. A \<^verbatim>\<open>null\<close> result for a party gives the
  same outcome as an empty appointment list for that party: for \<open>validate\<close> with any
  scanner that accepts the empty list, and for the two entry points.
\<close>

theorem null_result_is_no_conflict:
  "(GetAppointment rp i = Fulfilled None \<and> GetAppointment rp a = Fulfilled None \<longrightarrow>
      validate rp c i a scanner =
        (Fulfilled \<lparr>success = True, reason = ''''\<rparr>, [Fetched i, Fetched a])
      \<and> validate_creation rp ap i a =
        (Fulfilled \<lparr>success = True, reason = ''''\<rparr>, [Fetched i, Fetched a])
      \<and> validate_modification rp m i a =
        (Fulfilled \<lparr>success = True, reason = ''''\<rparr>, [Fetched i, Fetched a]))
   \<and> (scanner c [] \<longrightarrow>
        validate (rp\<lparr>GetAppointment := (GetAppointment rp)(party := Fulfilled None)\<rparr>)
          c i a scanner
        = validate (rp\<lparr>GetAppointment :=
            (GetAppointment rp)(party := Fulfilled (Some \<lparr>appointments = []\<rparr>))\<rparr>)
          c i a scanner)
   \<and> validate_creation (rp\<lparr>GetAppointment := (GetAppointment rp)(party := Fulfilled None)\<rparr>)
        ap i a
      = validate_creation (rp\<lparr>GetAppointment :=
          (GetAppointment rp)(party := Fulfilled (Some \<lparr>appointments = []\<rparr>))\<rparr>)
        ap i a
   \<and> validate_modification
        (rp\<lparr>GetAppointment := (GetAppointment rp)(party := Fulfilled None)\<rparr>) m i a
      = validate_modification (rp\<lparr>GetAppointment :=
          (GetAppointment rp)(party := Fulfilled (Some \<lparr>appointments = []\<rparr>))\<rparr>)
        m i a"
proof (intro conjI impI)
  assume "GetAppointment rp i = Fulfilled None \<and> GetAppointment rp a = Fulfilled None"
  then show "validate rp c i a scanner =
      (Fulfilled \<lparr>success = True, reason = ''''\<rparr>, [Fetched i, Fetched a])"
    and "validate_creation rp ap i a =
      (Fulfilled \<lparr>success = True, reason = ''''\<rparr>, [Fetched i, Fetched a])"
    and "validate_modification rp m i a =
      (Fulfilled \<lparr>success = True, reason = ''''\<rparr>, [Fetched i, Fetched a])"
    by (simp_all add: validate_creation_eq validate_modification_eq validate_def)
next
  assume "scanner c []"
  then show "validate (rp\<lparr>GetAppointment := (GetAppointment rp)(party := Fulfilled None)\<rparr>)
          c i a scanner
        = validate (rp\<lparr>GetAppointment :=
            (GetAppointment rp)(party := Fulfilled (Some \<lparr>appointments = []\<rparr>))\<rparr>)
          c i a scanner"
    by (rule validate_null_as_empty)
next
  have "noConflicts_Create ap []"
    by (simp add: noConflicts_Create_def)
  then show "validate_creation (rp\<lparr>GetAppointment := (GetAppointment rp)(party := Fulfilled None)\<rparr>)
        ap i a
      = validate_creation (rp\<lparr>GetAppointment :=
          (GetAppointment rp)(party := Fulfilled (Some \<lparr>appointments = []\<rparr>))\<rparr>)
        ap i a"
    unfolding validate_creation_eq by (rule validate_null_as_empty)
next
  have "noConflicts_Modify m []"
    by (simp add: noConflicts_Modify_def Let_def)
  then show "validate_modification
        (rp\<lparr>GetAppointment := (GetAppointment rp)(party := Fulfilled None)\<rparr>) m i a
      = validate_modification (rp\<lparr>GetAppointment :=
          (GetAppointment rp)(party := Fulfilled (Some \<lparr>appointments = []\<rparr>))\<rparr>)
        m i a"
    unfolding validate_modification_eq by (rule validate_null_as_empty)
qed

text \<open>
  The theorem at the repository without any record.
\<close>

theorem null_result_is_no_conflict_witness:
  "GetAppointment (repo_of []) ''U1'' = Fulfilled None
   \<and> GetAppointment (repo_of []) ''U2'' = Fulfilled None
   \<and> noConflicts_Create
        \<lparr>initiator = ''U1'', appointee = ''U2'', startTime = 600, endTime = 660\<rparr> []
   \<and> validate_creation (repo_of [])
        \<lparr>initiator = ''U1'', appointee = ''U2'', startTime = 600, endTime = 660\<rparr>
        ''U1'' ''U2''
      = (Fulfilled \<lparr>success = True, reason = ''''\<rparr>, [Fetched ''U1'', Fetched ''U2''])
   \<and> validate_modification (repo_of [])
        \<lparr>original = \<lparr>initiator = ''U1'', appointee = ''U2'', startTime = 540, endTime = 600\<rparr>,
         modified = \<lparr>initiator = ''U1'', appointee = ''U2'', startTime = 600, endTime = 660\<rparr>\<rparr>
        ''U1'' ''U2''
      = (Fulfilled \<lparr>success = True, reason = ''''\<rparr>, [Fetched ''U1'', Fetched ''U2''])"
proof -
  let ?c = "\<lparr>initiator = ''U1'', appointee = ''U2'', startTime = 600, endTime = 660\<rparr>"
  let ?m = "\<lparr>original = \<lparr>initiator = ''U1'', appointee = ''U2'', startTime = 540, endTime = 600\<rparr>,
             modified = ?c\<rparr>"
  have nulls: "GetAppointment (repo_of []) ''U1'' = Fulfilled None
               \<and> GetAppointment (repo_of []) ''U2'' = Fulfilled None"
    by (simp add: repo_of_def)
  have empty: "noConflicts_Create ?c []"
    by (simp add: noConflicts_Create_def)
  from null_result_is_no_conflict
         [of "repo_of []" "''U1''" "''U2''" ?c noConflicts_Create ?c ?m "''U1''"] nulls empty
  show ?thesis
    by blast
qed

subsection \<open>C10: the verdicts\<close>

text \<open>
  C10. In every verdict that \<open>validate\<close>, \<open>validate_creation\<close> or
  \<open>validate_modification\<close> fulfils with, the reason is empty exactly when \<open>success\<close>
  is true, and when \<open>success\<close> is false the reason is one of the two sentences naming
  the party whose appointment conflicts.
\<close>

theorem verdict_reason_invariant:
  assumes "fst (validate rp c i a scanner) = Fulfilled v
           \<or> fst (validate_creation rp ap i a) = Fulfilled v
           \<or> fst (validate_modification rp m i a) = Fulfilled v"
  shows "(reason v = '''' \<longleftrightarrow> success v)
         \<and> (\<not> success v \<longrightarrow>
              reason v = ''Appointment time conflicts with your existing appointment.''
              \<or> reason v =
                 ''Appointment time conflicts with the appointee's existing appointment.'')"
proof -
  from assms have "v = \<lparr>success = True, reason = ''''\<rparr>
         \<or> v = \<lparr>success = False, reason =
                  ''Appointment time conflicts with your existing appointment.''\<rparr>
         \<or> v = \<lparr>success = False, reason =
                  ''Appointment time conflicts with the appointee's existing appointment.''\<rparr>"
    unfolding validate_creation_eq validate_modification_eq
    by (blast dest: validate_verdicts)
  then show ?thesis
    by auto
qed

text \<open>
  The theorem at a creation that conflicts with the initiator's appointment.
\<close>

theorem verdict_reason_invariant_witness:
  "fst (validate_creation
     (repo_of [(''U1'', [\<lparr>initiator = ''U1'', appointee = ''U3'', startTime = 600, endTime = 660\<rparr>])])
     \<lparr>initiator = ''U1'', appointee = ''U2'', startTime = 630, endTime = 690\<rparr>
     ''U1'' ''U2'')
   = Fulfilled \<lparr>success = False, reason =
       ''Appointment time conflicts with your existing appointment.''\<rparr>
   \<and> (reason \<lparr>success = False, reason =
         ''Appointment time conflicts with your existing appointment.''\<rparr> = '''')
     = success \<lparr>success = False, reason =
         ''Appointment time conflicts with your existing appointment.''\<rparr>
   \<and> \<not> success \<lparr>success = False, reason =
         ''Appointment time conflicts with your existing appointment.''\<rparr>"
proof -
  let ?x = "\<lparr>initiator = ''U1'', appointee = ''U3'', startTime = 600, endTime = 660\<rparr>"
  let ?c = "\<lparr>initiator = ''U1'', appointee = ''U2'', startTime = 630, endTime = 690\<rparr>"
  let ?m = "\<lparr>original = ?x, modified = ?c\<rparr>"
  let ?v = "\<lparr>success = False, reason =
              ''Appointment time conflicts with your existing appointment.''\<rparr>"
  have run: "fst (validate_creation (repo_of [(''U1'', [?x])]) ?c ''U1'' ''U2'') = Fulfilled ?v"
    by (simp add: repo_of_def validate_creation_def validate_def noConflicts_Create_def
        timesConflict_unfold)
  then have hyp: "fst (validate (repo_of [(''U1'', [?x])]) ?c ''U1'' ''U2'' noConflicts_Create)
                    = Fulfilled ?v
                  \<or> fst (validate_creation (repo_of [(''U1'', [?x])]) ?c ''U1'' ''U2'')
                    = Fulfilled ?v
                  \<or> fst (validate_modification (repo_of [(''U1'', [?x])]) ?m ''U1'' ''U2'')
                    = Fulfilled ?v"
    by blast
  from verdict_reason_invariant [OF hyp] run show ?thesis
    by simp
qed

end
